theory Spec2Isabelle
  imports Complex_Main "HOL-Library.Word" "HOL-Library.Log_Nat"
begin

section \<open>Go values: machine integers and float64\<close>

text \<open>
  The program is \<^verbatim>\<open>tt.go\<close>, a compiler from a line-oriented tracker notation to a
  sample buffer. Go's \<^verbatim>\<open>int64\<close> and, on a 64-bit platform, \<^verbatim>\<open>int\<close> are 64-bit
  two's-complement integers whose arithmetic wraps around.
\<close>

type_synonym int64 = "64 word"
type_synonym go_int = "64 word"

text \<open>
  A \<^verbatim>\<open>float64\<close> is an IEEE 754 binary64 value: a sign bit (\<open>True\<close> is negative) with
  a non-negative rational magnitude, a signed infinity, or a NaN.
\<close>

datatype f64 = Fin bool rat | Infty bool | NaN

text \<open>\<open>ilog2 a\<close> is the binary exponent of a positive rational: \<open>2 powi ilog2 a \<le> a < 2 powi (ilog2 a + 1)\<close>.\<close>

definition ilog2 :: "rat \<Rightarrow> int" where
  "ilog2 a = (let (n, d) = quotient_of a; k = bitlen n - bitlen d
              in if 2 powi k \<le> a then k else k - 1)"

definition round_half_even :: "rat \<Rightarrow> int" where
  "round_half_even r = (let f = \<lfloor>r\<rfloor>; d = r - of_int f
     in if d < 1 / 2 then f else if 1 / 2 < d then f + 1 else if even f then f else f + 1)"

text \<open>
  Rounding of an exact magnitude to binary64, to nearest with ties to even: 53 significant
  bits, the unit in the last place never below \<open>2 powi - 1074\<close> (subnormals), and a
  rounded magnitude of \<open>2 powi 1024\<close> or more overflows to infinity. The literal is
  \<open>2 ^ 1024\<close>.
\<close>

definition rnd :: "bool \<Rightarrow> rat \<Rightarrow> f64" where
  "rnd s a = (if a = 0 then Fin s 0
     else let p = max (ilog2 a - 52) (- 1074);
              r = of_int (round_half_even (a / 2 powi p)) * 2 powi p
          in if 179769313486231590772930519078902473361797697894230657273430081157732675805500963132708477322407536021120113879871393357658789768814416622492847430639474124377767893424865485276302219601246094119453082952085005768838150682342462881473913110540827237163350510684586298239947245938479716304835356329624224137216 \<le> r
             then Infty s else Fin s r)"

fun f64_mul :: "f64 \<Rightarrow> f64 \<Rightarrow> f64" where
  "f64_mul NaN y = NaN"
| "f64_mul x NaN = NaN"
| "f64_mul (Infty s) (Infty t) = Infty (s \<noteq> t)"
| "f64_mul (Infty s) (Fin t b) = (if b = 0 then NaN else Infty (s \<noteq> t))"
| "f64_mul (Fin s a) (Infty t) = (if a = 0 then NaN else Infty (s \<noteq> t))"
| "f64_mul (Fin s a) (Fin t b) = rnd (s \<noteq> t) (a * b)"

fun f64_div :: "f64 \<Rightarrow> f64 \<Rightarrow> f64" where
  "f64_div NaN y = NaN"
| "f64_div x NaN = NaN"
| "f64_div (Infty s) (Infty t) = NaN"
| "f64_div (Infty s) (Fin t b) = Infty (s \<noteq> t)"
| "f64_div (Fin s a) (Infty t) = Fin (s \<noteq> t) 0"
| "f64_div (Fin s a) (Fin t b) =
     (if b = 0 then (if a = 0 then NaN else Infty (s \<noteq> t)) else rnd (s \<noteq> t) (a / b))"

fun f64_add :: "f64 \<Rightarrow> f64 \<Rightarrow> f64" where
  "f64_add NaN y = NaN"
| "f64_add x NaN = NaN"
| "f64_add (Infty s) (Infty t) = (if s = t then Infty s else NaN)"
| "f64_add (Infty s) (Fin t b) = Infty s"
| "f64_add (Fin s a) (Infty t) = Infty t"
| "f64_add (Fin s a) (Fin t b) =
     (let v = (if s then - a else a) + (if t then - b else b)
      in if v = 0 then Fin (s \<and> t) 0 else rnd (v < 0) \<bar>v\<bar>)"

text \<open>The conversion \<^verbatim>\<open>float64(n)\<close> of an integer, and of an integer constant.\<close>

definition f64_const :: "int \<Rightarrow> f64" where
  "f64_const n = rnd (n < 0) (of_int \<bar>n\<bar>)"

definition f64_of_int :: "int64 \<Rightarrow> f64" where
  "f64_of_int w = f64_const (sint w)"

text \<open>
  The conversion \<^verbatim>\<open>int(x)\<close> discards the fraction (truncation towards zero). Where the
  truncated value does not fit the integer type, or \<open>x\<close> is an infinity or a NaN, the Go
  specification leaves the result to the implementation: \<open>impl\<close> is that choice.
\<close>

definition f64_to_int :: "(f64 \<Rightarrow> go_int) \<Rightarrow> f64 \<Rightarrow> go_int" where
  "f64_to_int impl x = (case x of
       Fin s q \<Rightarrow>
         (let v = (if s then - \<lfloor>q\<rfloor> else \<lfloor>q\<rfloor>)
          in if - (2 ^ 63) \<le> v \<and> v < 2 ^ 63 then word_of_int v else impl x)
     | Infty s \<Rightarrow> impl x
     | NaN \<Rightarrow> impl x)"

text \<open>
  On amd64 the conversion compiles to \<^verbatim>\<open>CVTTSD2SQ\<close>, which returns the "integer
  indefinite" value \<open>- 2 ^ 63\<close> for every operand it cannot convert.
\<close>

definition amd64_impl :: "f64 \<Rightarrow> go_int" where
  "amd64_impl x = word_of_int (- (2 ^ 63))"

section \<open>Data model\<close>

datatype error =
    CannotParse string string
  | ReuseUndefined
  | CannotInstantiate string
  | UnknownProcessor string
  | DataLineWithoutTrack
  | NilDereference
  | IndexOutOfRange

text \<open>
  The first five are the errors \<^verbatim>\<open>processFile\<close> returns (a malformed value of a global
  setting, with field and token; reuse without a track; a factory that fails; an unknown
  processor name; a data line without a track). The last two are run-time panics: a
  method call on a nil interface value and an index outside a slice.

  A \<^verbatim>\<open>Processor\<close> is an interface value, \<open>None\<close> when nil; its implementations are
  outside the program, so their type is the parameter \<open>'p\<close>. A factory returns a
  processor or its own error message.
\<close>

type_synonym SampleBuffer = "f64 list"
type_synonym DataLines = "char \<rightharpoonup> string"
type_synonym 'p ProcessorFactory = "string \<Rightarrow> string + 'p option"

record 'p Track =
  factory :: "'p ProcessorFactory"
  proc :: "'p option"
  clear :: bool
  data :: DataLines
  bpm :: f64
  step :: f64
  steps :: go_int

text \<open>
  The package-level variables \<^verbatim>\<open>bpm\<close>, \<^verbatim>\<open>sr\<close>, \<^verbatim>\<open>steps\<close> and \<^verbatim>\<open>step\<close>.
  \<^verbatim>\<open>nchannels\<close> is never assigned. The initialiser of \<^verbatim>\<open>step\<close> is the constant
  expression \<^verbatim>\<open>1 / 4\<close> of two untyped integer constants: an integer division, whose
  value is then converted to \<^verbatim>\<open>float64\<close>.
\<close>

record Globals =
  g_bpm :: f64
  g_sr :: int64
  g_steps :: go_int
  g_step :: f64

definition nchannels :: go_int where
  "nchannels = 2"

definition initial_globals :: Globals where
  "initial_globals =
     \<lparr>g_bpm = f64_const 120, g_sr = 48000, g_steps = 16, g_step = f64_const (1 div 4)\<rparr>"

text \<open>
  What the program takes from outside: \<^verbatim>\<open>strconv.ParseFloat(s, 64)\<close> and
  \<^verbatim>\<open>strconv.ParseInt(s, 10, 64)\<close> (\<open>None\<close> when they return an error), the platform's
  choice for float-to-integer conversions that do not fit, the map
  \<^verbatim>\<open>processorFactories\<close>, and the \<^verbatim>\<open>Process\<close> method of the processors' types, as
  the function from the buffer's elements before the call to its elements after it.
\<close>

record 'p env =
  ParseFloat :: "string \<Rightarrow> f64 option"
  ParseInt :: "string \<Rightarrow> int64 option"
  float_to_int_impl :: "f64 \<Rightarrow> go_int"
  registry :: "string \<rightharpoonup> 'p ProcessorFactory"
  Process :: "'p \<Rightarrow> 'p Track \<Rightarrow> SampleBuffer \<Rightarrow> SampleBuffer"

text \<open>The registry of the repository: one name, whose factory returns \<^verbatim>\<open>nil, nil\<close>.\<close>

definition basicSynthFactory :: "'p ProcessorFactory" where
  "basicSynthFactory args = Inr None"

definition processorFactories :: "string \<rightharpoonup> 'p ProcessorFactory" where
  "processorFactories = [''basic'' \<mapsto> basicSynthFactory]"

section \<open>Timing model\<close>

definition BeatsPerSecond :: "'p Track \<Rightarrow> f64" where
  "BeatsPerSecond t = f64_div (bpm t) (Fin False 60)"

definition SamplesPerBeat :: "int64 \<Rightarrow> 'p Track \<Rightarrow> f64" where
  "SamplesPerBeat sr t = f64_div (f64_of_int sr) (BeatsPerSecond t)"

definition SamplesPerStep :: "(f64 \<Rightarrow> go_int) \<Rightarrow> int64 \<Rightarrow> 'p Track \<Rightarrow> go_int" where
  "SamplesPerStep impl sr t = f64_to_int impl (f64_mul (SamplesPerBeat sr t) (step t))"

definition Frames :: "(f64 \<Rightarrow> go_int) \<Rightarrow> int64 \<Rightarrow> 'p Track \<Rightarrow> go_int" where
  "Frames impl sr t = SamplesPerStep impl sr t * steps t"

section \<open>Directive parser\<close>

text \<open>
  The four regular expressions of \<^verbatim>\<open>processFile\<close>, each as the function that
  \<^verbatim>\<open>FindStringSubmatch\<close> computes for it: the captured groups of the leftmost-first
  match, or \<open>None\<close>. A line is a list of bytes. \<^verbatim>\<open>\s\<close> is tab, newline, form feed,
  carriage return and space; \<^verbatim>\<open>.\<close> is every character but newline.
\<close>

definition is_space :: "char \<Rightarrow> bool" where
  "is_space c \<longleftrightarrow> c \<in> set [CHR 0x09, CHR 0x0A, CHR 0x0C, CHR 0x0D, CHR 0x20]"

definition dot :: "char \<Rightarrow> bool" where
  "dot c \<longleftrightarrow> c \<noteq> CHR 0x0A"

fun first_some :: "('a \<Rightarrow> 'b option) \<Rightarrow> 'a list \<Rightarrow> 'b option" where
  "first_some f [] = None"
| "first_some f (x # xs) = (case f x of Some y \<Rightarrow> Some y | None \<Rightarrow> first_some f xs)"

text \<open>
  \<^verbatim>\<open>\s+(.+)$\<close> on the rest of a line: the greedy \<^verbatim>\<open>\s+\<close> takes the longest run of
  white space that leaves a non-empty, newline-free remainder.
\<close>

definition ws_then_value :: "string \<Rightarrow> string option" where
  "ws_then_value rest =
     first_some (\<lambda>j. let v = drop j rest in if v \<noteq> [] \<and> list_all dot v then Some v else None)
       (rev [1 ..< Suc (length (takeWhile is_space rest))])"

text \<open>\<^verbatim>\<open>^(bpm|sr|steps|step)\s+(.+)$\<close>: groups 1 and 2.\<close>

definition setGlobalPattern :: "string \<Rightarrow> (string \<times> string) option" where
  "setGlobalPattern line =
     first_some (\<lambda>kw. if take (length kw) line = kw
                      then map_option (Pair kw) (ws_then_value (drop (length kw) line))
                      else None)
       [''bpm'', ''sr'', ''steps'', ''step'']"

text \<open>
  \<^verbatim>\<open>^([:+])([^:]+)?(?::(.+))?$\<close>: groups 1, 2 and 3, an unmatched group being the
  empty string. The name is the longest colon-free run; what follows it is the end of the
  line, or a colon and non-empty arguments.
\<close>

definition setProcessorPattern :: "string \<Rightarrow> (string \<times> string \<times> string) option" where
  "setProcessorPattern line = (case line of
       [] \<Rightarrow> None
     | c # rest \<Rightarrow>
         if c = CHR '':'' \<or> c = CHR ''+'' then
           (case dropWhile (\<lambda>x. x \<noteq> CHR '':'') rest of
              [] \<Rightarrow> Some ([c], rest, [])
            | colon # args \<Rightarrow>
                if args \<noteq> [] \<and> list_all dot args
                then Some ([c], takeWhile (\<lambda>x. x \<noteq> CHR '':'') rest, args)
                else None)
         else None)"

text \<open>
  The width in bytes of the first UTF-8 sequence of a string, as \<^verbatim>\<open>utf8.DecodeRune\<close>
  reads it: an ill-formed or truncated sequence is one byte wide.
\<close>

definition utf8_lead :: "nat \<Rightarrow> (nat \<times> nat \<times> nat) option" where
  "utf8_lead b =
     (if 0xC2 \<le> b \<and> b \<le> 0xDF then Some (2, 0x80, 0xBF)
      else if b = 0xE0 then Some (3, 0xA0, 0xBF)
      else if (0xE1 \<le> b \<and> b \<le> 0xEC) \<or> b = 0xEE \<or> b = 0xEF then Some (3, 0x80, 0xBF)
      else if b = 0xED then Some (3, 0x80, 0x9F)
      else if b = 0xF0 then Some (4, 0x90, 0xBF)
      else if 0xF1 \<le> b \<and> b \<le> 0xF3 then Some (4, 0x80, 0xBF)
      else if b = 0xF4 then Some (4, 0x80, 0x8F)
      else None)"

definition byte_in :: "char \<Rightarrow> nat \<Rightarrow> nat \<Rightarrow> bool" where
  "byte_in c lo hi \<longleftrightarrow> lo \<le> (of_char c :: nat) \<and> (of_char c :: nat) \<le> hi"

definition rune_width :: "string \<Rightarrow> nat" where
  "rune_width s = (case s of
       [] \<Rightarrow> 0
     | c # cs \<Rightarrow>
         (case utf8_lead (of_char c) of
            None \<Rightarrow> 1
          | Some (sz, lo, hi) \<Rightarrow>
              if length s < sz then 1
              else if \<not> byte_in (s ! 1) lo hi then 1
              else if sz \<le> 2 then 2
              else if \<not> byte_in (s ! 2) 0x80 0xBF then 1
              else if sz \<le> 3 then 3
              else if \<not> byte_in (s ! 3) 0x80 0xBF then 1
              else 4))"

text \<open>
  \<^verbatim>\<open>^(.)(.+)$\<close>: the first byte of group 1 (the code \<^verbatim>\<open>matches[1][0]\<close>) and
  group 2.
\<close>

definition setDataPattern :: "string \<Rightarrow> (char \<times> string) option" where
  "setDataPattern line = (case line of
       [] \<Rightarrow> None
     | c # cs \<Rightarrow>
         (let rest = drop (rune_width line) line
          in if dot c \<and> rest \<noteq> [] \<and> list_all dot rest then Some (c, rest) else None))"

text \<open>\<^verbatim>\<open>^\s+$\<close>.\<close>

definition emptyLinePattern :: "string \<Rightarrow> bool" where
  "emptyLinePattern line \<longleftrightarrow> line \<noteq> [] \<and> list_all is_space line"

text \<open>\<^verbatim>\<open>strings.IndexByte\<close> and the function \<^verbatim>\<open>parseFloat\<close>.\<close>

definition IndexByte :: "string \<Rightarrow> char \<Rightarrow> int" where
  "IndexByte s c = (if c \<in> set s then int (length (takeWhile (\<lambda>x. x \<noteq> c) s)) else - 1)"

definition parseFloat :: "'p env \<Rightarrow> string \<Rightarrow> f64 option" where
  "parseFloat env s =
     (let slashIndex = IndexByte s CHR ''/''
      in if slashIndex = - 1 then ParseFloat env s
         else (case ParseFloat env (take (nat slashIndex) s) of
                 None \<Rightarrow> None
               | Some nom \<Rightarrow>
                   (case ParseFloat env (drop (nat (slashIndex + 1)) s) of
                      None \<Rightarrow> None
                    | Some denom \<Rightarrow> Some (f64_div nom denom))))"

section \<open>Song builder\<close>

text \<open>
  The variables of \<^verbatim>\<open>processFile\<close> and the tracks it allocates. A \<^verbatim>\<open>*Track\<close> is an
  address, the index of the track in \<open>heap\<close>; \<^verbatim>\<open>&Track{...}\<close> allocates at the end.
  The nil slice is \<open>[]\<close>: \<^verbatim>\<open>pattern\<close> is non-nil exactly when it has an element, since
  it is only ever set to nil or to the result of an \<^verbatim>\<open>append\<close>.
\<close>

record 'p State =
  globals :: Globals
  heap :: "'p Track list"
  song :: "nat list list"
  pattern :: "nat list"
  track :: "nat option"

datatype control = Continue | Break

text \<open>The \<^verbatim>\<open>switch option\<close> of the global-setting branch.\<close>

definition setGlobal :: "'p env \<Rightarrow> Globals \<Rightarrow> string \<Rightarrow> string \<Rightarrow> error + Globals" where
  "setGlobal env g option val =
     (if option = ''bpm'' then
        (case parseFloat env val of
           None \<Rightarrow> Inl (CannotParse ''bpm'' val) | Some v \<Rightarrow> Inr (g\<lparr>g_bpm := v\<rparr>))
      else if option = ''sr'' then
        (case ParseInt env val of
           None \<Rightarrow> Inl (CannotParse ''sr'' val) | Some v \<Rightarrow> Inr (g\<lparr>g_sr := v\<rparr>))
      else if option = ''steps'' then
        (case ParseInt env val of
           None \<Rightarrow> Inl (CannotParse ''steps'' val) | Some v \<Rightarrow> Inr (g\<lparr>g_steps := v\<rparr>))
      else if option = ''step'' then
        (case parseFloat env val of
           None \<Rightarrow> Inl (CannotParse ''step'' val) | Some v \<Rightarrow> Inr (g\<lparr>g_step := v\<rparr>))
      else Inr g)"

text \<open>
  The processor branch. With an empty name the current track's factory is called, the
  current track's address is appended to the pattern, and the fields of that same track
  are assigned (not \<^verbatim>\<open>clear\<close>). With a registered name the current track, if any, is
  appended and a new track is allocated.
\<close>

definition setProcessor ::
  "'p env \<Rightarrow> 'p State \<Rightarrow> string \<times> string \<times> string \<Rightarrow> error + 'p State" where
  "setProcessor env s m = (case m of (m1, name, args) \<Rightarrow>
     (let clear = (m1 \<noteq> ''+'')
      in if name = [] then
           (case track s of
              None \<Rightarrow> Inl ReuseUndefined
            | Some a \<Rightarrow>
                (case factory (heap s ! a) args of
                   Inl e \<Rightarrow> Inl (CannotInstantiate name)
                 | Inr p \<Rightarrow>
                     Inr (s\<lparr>pattern := pattern s @ [a],
                            heap := (heap s)[a := (heap s ! a)
                              \<lparr>proc := p, data := Map.empty, bpm := g_bpm (globals s),
                               step := g_step (globals s), steps := g_steps (globals s)\<rparr>]\<rparr>)))
         else
           (case registry env name of
              Some f \<Rightarrow>
                (case f args of
                   Inl e \<Rightarrow> Inl (CannotInstantiate name)
                 | Inr p \<Rightarrow>
                     Inr (s\<lparr>pattern := (case track s of
                                           Some a \<Rightarrow> pattern s @ [a] | None \<Rightarrow> pattern s),
                            heap := heap s @
                              [\<lparr>factory = f, proc = p, clear = clear, data = Map.empty,
                                bpm = g_bpm (globals s), step = g_step (globals s),
                                steps = g_steps (globals s)\<rparr>],
                            track := Some (length (heap s))\<rparr>))
            | None \<Rightarrow> Inl (UnknownProcessor name))))"

definition setData :: "'p State \<Rightarrow> char \<times> string \<Rightarrow> error + 'p State" where
  "setData s m = (case m of (code, d) \<Rightarrow>
     (case track s of
        None \<Rightarrow> Inl DataLineWithoutTrack
      | Some a \<Rightarrow>
          Inr (s\<lparr>heap := (heap s)[a := (heap s ! a)\<lparr>data := (data (heap s ! a))(code \<mapsto> d)\<rparr>]\<rparr>)))"

text \<open>The body of the scanning loop: the chain of \<^verbatim>\<open>if\<close>/\<^verbatim>\<open>else if\<close> on one line.\<close>

definition processLine :: "'p env \<Rightarrow> 'p State \<Rightarrow> string \<Rightarrow> error + control \<times> 'p State" where
  "processLine env s line =
     (if line = ''>>'' then Inr (Continue, s\<lparr>song := [], pattern := [], track := None\<rparr>)
      else if line = ''<<'' then Inr (Break, s)
      else case setGlobalPattern line of
        Some (option, val) \<Rightarrow>
          (case setGlobal env (globals s) option val of
             Inl e \<Rightarrow> Inl e | Inr g \<Rightarrow> Inr (Continue, s\<lparr>globals := g\<rparr>))
      | None \<Rightarrow>
          (case setProcessorPattern line of
             Some m \<Rightarrow>
               (case setProcessor env s m of Inl e \<Rightarrow> Inl e | Inr s' \<Rightarrow> Inr (Continue, s'))
           | None \<Rightarrow>
               (case setDataPattern line of
                  Some m \<Rightarrow>
                    (case setData s m of Inl e \<Rightarrow> Inl e | Inr s' \<Rightarrow> Inr (Continue, s'))
                | None \<Rightarrow>
                    if emptyLinePattern line then
                      (if pattern s \<noteq> []
                       then Inr (Continue,
                                 s\<lparr>song := song s @ [pattern s], pattern := [], track := None\<rparr>)
                       else Inr (Continue, s))
                    else Inr (Continue, s))))"

text \<open>
  The loop over the scanner's lines, and the closing of an open pattern after it. The
  input is the list of lines the scanner yields; the scanner itself does not fail.
\<close>

fun scan :: "'p env \<Rightarrow> 'p State \<Rightarrow> string list \<Rightarrow> error + control \<times> 'p State" where
  "scan env s [] = Inr (Continue, s)"
| "scan env s (line # rest) = (case processLine env s line of
       Inl e \<Rightarrow> Inl e
     | Inr (Break, s') \<Rightarrow> Inr (Break, s')
     | Inr (Continue, s') \<Rightarrow> scan env s' rest)"

definition close_pattern :: "'p State \<Rightarrow> 'p State" where
  "close_pattern s =
     (if pattern s \<noteq> [] then s\<lparr>song := song s @ [pattern s], pattern := [], track := None\<rparr>
      else s)"

definition start :: "Globals \<Rightarrow> 'p State" where
  "start g = \<lparr>globals = g, heap = [], song = [], pattern = [], track = None\<rparr>"

definition build :: "'p env \<Rightarrow> Globals \<Rightarrow> string list \<Rightarrow> error + 'p State" where
  "build env g lines = (case scan env (start g) lines of
       Inl e \<Rightarrow> Inl e
     | Inr (c, s) \<Rightarrow> Inr (close_pattern s))"

section \<open>Mixing engine\<close>

definition NewSampleBuffer :: SampleBuffer where
  "NewSampleBuffer = []"

definition Clear :: "SampleBuffer \<Rightarrow> SampleBuffer" where
  "Clear buf = map (\<lambda>x. Fin False 0) buf"

text \<open>
  \<^verbatim>\<open>Process\<close> receives the slice by value: whatever the method does, the caller's slice
  keeps its length, and only its elements can have changed.
\<close>

definition slice_after_call :: "SampleBuffer \<Rightarrow> SampleBuffer \<Rightarrow> SampleBuffer" where
  "slice_after_call buf r = take (length buf) r @ drop (length r) buf"

definition Track_Process :: "'p env \<Rightarrow> 'p Track \<Rightarrow> SampleBuffer \<Rightarrow> error + SampleBuffer" where
  "Track_Process env t buf = (case proc t of
       None \<Rightarrow> Inl NilDereference
     | Some p \<Rightarrow> Inr (slice_after_call buf (Process env p t buf)))"

text \<open>
  The loop over the tracks of one pattern, on the pair \<^verbatim>\<open>samples\<close>,
  \<^verbatim>\<open>patternFrames\<close>. \<^verbatim>\<open>Frames\<close> reads the package-level \<^verbatim>\<open>sr\<close>.
\<close>

fun render_tracks ::
  "'p env \<Rightarrow> int64 \<Rightarrow> 'p Track list \<Rightarrow> nat list \<Rightarrow> SampleBuffer \<times> go_int
     \<Rightarrow> error + SampleBuffer \<times> go_int" where
  "render_tracks env sr h [] acc = Inr acc"
| "render_tracks env sr h (a # as) (samples, patternFrames) =
     (case Track_Process env (h ! a) (if clear (h ! a) then Clear samples else samples) of
        Inl e \<Rightarrow> Inl e
      | Inr samples' \<Rightarrow>
          (let trackFrames = Frames (float_to_int_impl env) sr (h ! a)
           in render_tracks env sr h as
                (samples', if patternFrames <s trackFrames then trackFrames else patternFrames)))"

text \<open>
  \<^verbatim>\<open>slices.Grow(s, n)\<close> reserves capacity for \<open>n\<close> more elements and returns the slice
  with its length and elements as they were.
\<close>

definition slices_Grow :: "SampleBuffer \<Rightarrow> nat \<Rightarrow> SampleBuffer" where
  "slices_Grow s n = s"

text \<open>
  The loop \<^verbatim>\<open>songSamples[writePos+i] += samples[i]\<close>, on the samples still to add and
  the index \<open>i\<close> of the first of them. An index that is negative or not below the length
  of \<^verbatim>\<open>songSamples\<close> panics.
\<close>

fun add_samples :: "SampleBuffer \<Rightarrow> go_int \<Rightarrow> SampleBuffer \<Rightarrow> nat \<Rightarrow> error + SampleBuffer" where
  "add_samples songSamples writePos [] i = Inr songSamples"
| "add_samples songSamples writePos (x # xs) i =
     (let j = sint (writePos + of_nat i)
      in if j < 0 \<or> int (length songSamples) \<le> j then Inl IndexOutOfRange
         else add_samples (songSamples[nat j := f64_add (songSamples ! nat j) x])
                writePos xs (Suc i))"

text \<open>The part of the loop body after the tracks: lines 231 to 235.\<close>

definition mix :: "SampleBuffer \<Rightarrow> go_int \<Rightarrow> SampleBuffer \<Rightarrow> go_int
    \<Rightarrow> error + SampleBuffer \<times> go_int" where
  "mix songSamples writePos samples patternFrames =
     (case add_samples (slices_Grow songSamples (length samples)) writePos samples 0 of
        Inl e \<Rightarrow> Inl e
      | Inr songSamples' \<Rightarrow> Inr (songSamples', writePos + patternFrames * nchannels))"

fun render_song ::
  "'p env \<Rightarrow> int64 \<Rightarrow> 'p Track list \<Rightarrow> nat list list \<Rightarrow> SampleBuffer \<times> go_int
     \<Rightarrow> error + SampleBuffer \<times> go_int" where
  "render_song env sr h [] acc = Inr acc"
| "render_song env sr h (p # ps) (songSamples, writePos) =
     (case render_tracks env sr h p (NewSampleBuffer, 0) of
        Inl e \<Rightarrow> Inl e
      | Inr (samples, patternFrames) \<Rightarrow>
          (case mix songSamples writePos samples patternFrames of
             Inl e \<Rightarrow> Inl e
           | Inr acc \<Rightarrow> render_song env sr h ps acc))"

text \<open>
  \<^verbatim>\<open>processFile\<close> on the lines of the file, up to the sample buffer it hands to the
  encoder, together with the package-level variables as it leaves them.
\<close>

definition processFile ::
  "'p env \<Rightarrow> Globals \<Rightarrow> string list \<Rightarrow> error + Globals \<times> SampleBuffer" where
  "processFile env g lines = (case build env g lines of
       Inl e \<Rightarrow> Inl e
     | Inr s \<Rightarrow>
         (case render_song env (g_sr (globals s)) (heap s) (song s) (NewSampleBuffer, 0) of
            Inl e \<Rightarrow> Inl e
          | Inr (songSamples, writePos) \<Rightarrow> Inr (globals s, songSamples)))"

section \<open>Configurations and inputs used in the examples\<close>

text \<open>
  The program as the repository has it: its own registry, on amd64. No processor value
  exists in it, so the type of processors is \<open>unit\<close> and \<open>Process\<close> is never called. The
  parsers are given as the table of the tokens the examples use.
\<close>

definition repo_env :: "unit env" where
  "repo_env =
     \<lparr>ParseFloat = (\<lambda>s. if s = ''0'' then Some (Fin False 0)
                         else if s = ''120'' then Some (Fin False 120)
                         else if s = ''140'' then Some (Fin False 140) else None),
      ParseInt = (\<lambda>s. if s = ''8'' then Some 8 else None),
      float_to_int_impl = amd64_impl,
      registry = processorFactories,
      Process = (\<lambda>p t buf. buf)\<rparr>"

text \<open>
  A configuration with processors: a processor is the list of samples it contributes, and
  \<open>contribute\<close> adds them to the buffer it is given, going on with its own samples where
  the buffer ends. The registry has two names, whose factories ignore their arguments.
\<close>

definition contribute :: "SampleBuffer \<Rightarrow> SampleBuffer Track \<Rightarrow> SampleBuffer \<Rightarrow> SampleBuffer" where
  "contribute p t buf = map2 f64_add buf p @ drop (length buf) p"

definition demo_env :: "SampleBuffer env" where
  "demo_env =
     \<lparr>ParseFloat = (\<lambda>s. if s = ''1'' then Some (Fin False 1)
                         else if s = ''60'' then Some (Fin False 60)
                         else if s = ''120'' then Some (Fin False 120)
                         else if s = ''140'' then Some (Fin False 140) else None),
      ParseInt = (\<lambda>s. if s = ''1'' then Some 1
                       else if s = ''3'' then Some 3
                       else if s = ''4'' then Some 4
                       else if s = ''6'' then Some 6
                       else if s = ''-1'' then Some (- 1) else None),
      float_to_int_impl = amd64_impl,
      registry = [''lead'' \<mapsto> (\<lambda>args. Inr (Some [rnd False (1 / 10), rnd False (2 / 10)])),
                  ''bass'' \<mapsto> (\<lambda>args. Inr (Some [rnd False (5 / 100), rnd False (5 / 100)]))],
      Process = contribute\<rparr>"

text \<open>The three cursors of a state, and the number of tracks allocated so far.\<close>

definition cursors :: "'p State \<Rightarrow> nat list list \<times> nat list \<times> nat option \<times> nat" where
  "cursors s = (song s, pattern s, track s, length (heap s))"

text \<open>A track with a given tempo, step length and step count, and nothing else set.\<close>

definition track_with :: "f64 \<Rightarrow> f64 \<Rightarrow> go_int \<Rightarrow> unit Track" where
  "track_with b st n =
     \<lparr>factory = basicSynthFactory, proc = None, clear = True, data = Map.empty,
      bpm = b, step = st, steps = n\<rparr>"

section \<open>Notions used in the statements\<close>




text \<open>The song of a state as the tracks its addresses point to.\<close>

definition song_tracks :: "'p State \<Rightarrow> 'p Track list list" where
  "song_tracks s = map (map (\<lambda>a. heap s ! a)) (song s)"

text \<open>
  The same state with the tracks \<open>h0\<close> allocated before its own: every address moves up by
  the length of \<open>h0\<close>.
\<close>

definition shift_state :: "'p Track list \<Rightarrow> 'p State \<Rightarrow> 'p State" where
  "shift_state h0 s =
     \<lparr>globals = globals s, heap = h0 @ heap s,
      song = map (map (\<lambda>a. length h0 + a)) (song s),
      pattern = map (\<lambda>a. length h0 + a) (pattern s),
      track = map_option (\<lambda>a. length h0 + a) (track s)\<rparr>"

text \<open>A float64 that is not negative: a NaN has no sign that matters here.\<close>

definition nonneg_f64 :: "f64 \<Rightarrow> bool" where
  "nonneg_f64 x = (case x of Fin s q \<Rightarrow> \<not> s \<and> 0 \<le> q | Infty s \<Rightarrow> \<not> s | NaN \<Rightarrow> True)"


section \<open>Facts about float64 and machine integers\<close>

lemma round_half_even_nonneg: "0 \<le> r \<Longrightarrow> 0 \<le> round_half_even r"
  by (auto simp: round_half_even_def Let_def)


lemma nonneg_f64_simps [simp]:
  "nonneg_f64 (Fin s q) \<longleftrightarrow> \<not> s \<and> 0 \<le> q"
  "nonneg_f64 (Infty s) \<longleftrightarrow> \<not> s"
  "nonneg_f64 NaN"
  by (simp_all add: nonneg_f64_def)

lemma nonneg_rnd: "0 \<le> a \<Longrightarrow> nonneg_f64 (rnd False a)"
proof -
  assume a: "0 \<le> a"
  have p: "0 < (2::rat) powi k" for k by simp
  have "0 \<le> a / 2 powi k" for k using a p[of k] by simp
  then have "0 \<le> rat_of_int (round_half_even (a / 2 powi k)) * 2 powi k" for k
    using round_half_even_nonneg[of "a / 2 powi k"] by simp
  then show ?thesis
    by (simp add: rnd_def Let_def)
qed

lemma nonneg_f64_div: "nonneg_f64 x \<Longrightarrow> nonneg_f64 y \<Longrightarrow> nonneg_f64 (f64_div x y)"
  by (cases x; cases y) (simp_all add: nonneg_rnd)

lemma nonneg_f64_mul: "nonneg_f64 x \<Longrightarrow> nonneg_f64 y \<Longrightarrow> nonneg_f64 (f64_mul x y)"
  by (cases x; cases y) (simp_all add: nonneg_rnd)

lemma nonneg_f64_of_int: "0 \<le> sint w \<Longrightarrow> nonneg_f64 (f64_of_int w)"
proof -
  assume w: "0 \<le> sint w"
  have "nonneg_f64 (rnd False (rat_of_int \<bar>sint w\<bar>))"
    by (rule nonneg_rnd) simp
  then show ?thesis using w by (simp add: f64_of_int_def f64_const_def)
qed

lemma f64_to_int_nonneg:
  "0 \<le> q \<Longrightarrow> \<lfloor>q\<rfloor> < 2 ^ 63 \<Longrightarrow> sint (f64_to_int impl (Fin False q)) = \<lfloor>q\<rfloor>"
proof -
  assume q: "0 \<le> q" and b: "\<lfloor>q\<rfloor> < 2 ^ 63"
  have f: "0 \<le> \<lfloor>q\<rfloor>" using q by simp
  have "sint (word_of_int \<lfloor>q\<rfloor> :: 64 word) = \<lfloor>q\<rfloor>"
    using f b by (simp add: sint_sbintrunc' signed_take_bit_int_eq_self)
  then show ?thesis using f b by (simp add: f64_to_int_def)
qed

lemma sint_mult_in_range:
  fixes a b :: "64 word"
  assumes "- (2 ^ 63) \<le> sint a * sint b" "sint a * sint b < 2 ^ 63"
  shows "sint (a * b) = sint a * sint b"
  using assms by (simp add: sint_word_ariths signed_take_bit_int_eq_self)

section \<open>The timing model\<close>

text \<open>
  C5, as amended. For a track with a positive finite tempo and step length, a positive
  sample rate and a step count that is not negative: when the float64 value
  \<open>sr / (bpm / 60) * step\<close> is finite with a floor \<open>n\<close> below \<open>2 ^ 63\<close>, and \<open>n\<close> times the
  step count is below \<open>2 ^ 63\<close> too, then the samples per step are \<open>n\<close> (the one
  truncation), the frame count is \<open>n\<close> times the step count, and it is not negative.
\<close>

theorem Frames_in_range:
  assumes b: "bpm t = Fin False b" "0 < b"
    and st: "step t = Fin False st" "0 < st"
    and sr: "0 < sint sr"
    and n: "0 \<le> sint (steps t)"
    and x: "f64_mul (f64_div (f64_of_int sr) (f64_div (bpm t) (Fin False 60))) (step t) = Fin sg q"
    and r: "\<lfloor>q\<rfloor> < 2 ^ 63" "\<lfloor>q\<rfloor> * sint (steps t) < 2 ^ 63"
  shows "sint (SamplesPerStep impl sr t) = \<lfloor>q\<rfloor>
       \<and> sint (Frames impl sr t) = \<lfloor>q\<rfloor> * sint (steps t)
       \<and> 0 \<le> sint (Frames impl sr t)"
proof -
  have "nonneg_f64 (f64_div (bpm t) (Fin False 60))"
    using b by (simp add: nonneg_rnd)
  moreover have "nonneg_f64 (f64_of_int sr)"
    using sr by (simp add: nonneg_f64_of_int)
  ultimately have "nonneg_f64 (f64_div (f64_of_int sr) (f64_div (bpm t) (Fin False 60)))"
    by (rule nonneg_f64_div[rotated])
  moreover have "nonneg_f64 (step t)" using st by simp
  ultimately have
    "nonneg_f64 (f64_mul (f64_div (f64_of_int sr) (f64_div (bpm t) (Fin False 60))) (step t))"
    by (rule nonneg_f64_mul)
  then have sg: "\<not> sg" and q: "0 \<le> q" using x by simp_all
  have sps: "sint (SamplesPerStep impl sr t) = \<lfloor>q\<rfloor>"
    using x sg f64_to_int_nonneg[OF q r(1), of impl]
    by (simp add: SamplesPerStep_def SamplesPerBeat_def BeatsPerSecond_def)
  have f: "0 \<le> \<lfloor>q\<rfloor>" using q by simp
  have nn: "0 \<le> \<lfloor>q\<rfloor> * sint (steps t)" using f n by simp
  have "sint (Frames impl sr t) = \<lfloor>q\<rfloor> * sint (steps t)"
    unfolding Frames_def
    using sint_mult_in_range[of "SamplesPerStep impl sr t" "steps t"] sps nn r(2)
    by simp
  then show ?thesis using sps nn by simp
qed

text \<open>
  At 120 beats per minute, 48000 samples per second, a step of a quarter beat and 16
  steps: 6000 samples per step and 96000 frames.
\<close>

theorem Frames_in_range_witness:
  "sint (SamplesPerStep amd64_impl 48000 (track_with (Fin False 120) (Fin False (1 / 4)) 16)) = 6000
   \<and> sint (Frames amd64_impl 48000 (track_with (Fin False 120) (Fin False (1 / 4)) 16)) = 96000
   \<and> 0 \<le> sint (Frames amd64_impl 48000 (track_with (Fin False 120) (Fin False (1 / 4)) 16))"
proof -
  let ?t = "track_with (Fin False 120) (Fin False (1 / 4)) 16"
  have x: "f64_mul (f64_div (f64_of_int 48000) (f64_div (bpm ?t) (Fin False 60))) (step ?t)
             = Fin False 6000"
    by code_simp
  have b: "bpm ?t = Fin False 120" and st: "step ?t = Fin False (1 / 4)"
    and n: "0 \<le> sint (steps ?t)"
    by (simp_all add: track_with_def)
  have sr: "0 < sint (48000 :: int64)" by simp
  have r: "\<lfloor>6000 :: rat\<rfloor> < 2 ^ 63" "\<lfloor>6000 :: rat\<rfloor> * sint (steps ?t) < 2 ^ 63"
    by (simp_all add: track_with_def)
  show ?thesis
    using Frames_in_range[OF b _ st _ sr n x r, of amd64_impl]
    by (simp add: track_with_def)
qed

text \<open>
  C5, as stated, fails where the product leaves the range of \<^verbatim>\<open>int\<close>. With 3 samples
  per second, 60 beats per minute, a step of one beat and \<open>2 ^ 62\<close> steps, the float64
  value \<open>sr / (bpm / 60) * step\<close> is 3, the formula gives \<open>3 * 2 ^ 62\<close>, and \<^verbatim>\<open>Frames\<close>
  returns \<open>- (2 ^ 62)\<close>.
\<close>

theorem Frames_overflow:
  "f64_mul (f64_div (f64_of_int 3) (f64_div (Fin False 60) (Fin False 60))) (Fin False 1)
     = Fin False 3
   \<and> sint (steps (track_with (Fin False 60) (Fin False 1) 4611686018427387904))
     = 4611686018427387904
   \<and> sint (Frames amd64_impl 3 (track_with (Fin False 60) (Fin False 1) 4611686018427387904))
     = - 4611686018427387904"
  by code_simp

section \<open>The mixing step and the song buffer\<close>

text \<open>
  In every configuration the scratch buffer is still empty after the tracks of a pattern,
  whatever their processors do; on an empty song buffer the mixing step panics at its
  first write; and so the buffer that \<^verbatim>\<open>processFile\<close> hands to the encoder is always
  empty.
\<close>

lemma slice_after_call_Nil: "slice_after_call [] r = []"
  by (simp add: slice_after_call_def)

lemma Track_Process_Nil:
  "Track_Process env t [] = (case proc t of None \<Rightarrow> Inl NilDereference | Some p \<Rightarrow> Inr [])"
  by (simp add: Track_Process_def slice_after_call_Nil split: option.splits)

lemma render_tracks_scratch_empty:
  "render_tracks env sr h p ([], pf) = Inr (samples, pf') \<Longrightarrow> samples = []"
proof (induction p arbitrary: pf)
  case Nil
  then show ?case by simp
next
  case (Cons a p)
  then show ?case
    by (auto simp: Track_Process_Nil Clear_def Let_def split: option.splits if_splits)
qed

lemma mix_Nil: "mix songSamples writePos [] pf = Inr (songSamples, writePos + pf * nchannels)"
  by (simp add: mix_def slices_Grow_def)


lemma mix_first_write_panics:
  "mix [] writePos (x # xs) pf = Inl IndexOutOfRange"
proof -
  have "sint writePos < 0 \<or> 0 \<le> sint writePos" by linarith
  then show ?thesis by (simp add: mix_def slices_Grow_def Let_def)
qed

lemma render_song_buffer_empty:
  "render_song env sr h sg ([], wp) = Inr (songSamples, wp') \<Longrightarrow> songSamples = []"
proof (induction sg arbitrary: wp)
  case Nil
  then show ?case by simp
next
  case (Cons p sg)
  from Cons.prems obtain samples pf where
    r: "render_tracks env sr h p ([], 0) = Inr (samples, pf)"
    by (auto simp: NewSampleBuffer_def split: sum.splits)
  then have "samples = []" by (rule render_tracks_scratch_empty)
  with r Cons.prems have "render_song env sr h sg ([], wp + pf * nchannels) = Inr (songSamples, wp')"
    by (simp add: NewSampleBuffer_def mix_Nil)
  then show ?case by (rule Cons.IH)
qed

lemma processFile_buffer_empty:
  "processFile env g lines = Inr (g', songSamples) \<Longrightarrow> songSamples = []"
  by (auto simp: processFile_def NewSampleBuffer_def
           split: sum.splits prod.splits dest: render_song_buffer_empty)


text \<open>
  C2 at a failing input. A clearing directive for a processor that contributes two samples,
  an accumulating directive for another, and a separator: the pattern that reaches the
  song holds the first track only, and rendering even both tracks leaves the scratch
  buffer empty, since it is made with length 0 and handed over by value. With the
  repository's registry the processor is nil and the render panics.
\<close>

theorem two_tracks_scratch_empty:
  "map_sum id
     (\<lambda>s. (song s, map clear (heap s),
           render_tracks demo_env (g_sr (globals s)) (heap s) [0, 1] (NewSampleBuffer, 0)))
     (build demo_env initial_globals ['':lead'', ''+bass'', '' ''])
     = Inr ([[0]], [True, False], Inr ([], 0))
   \<and> processFile repo_env initial_globals ['':basic'', ''+basic'', '' '']
     = Inl NilDereference"
  by code_simp

section \<open>The directives\<close>

text \<open>
  C3 at a failing input. After a track with a data line \<open>b\<close> has been appended by a first
  reuse, a second reuse (with the step count set to 8 in between) appends the same
  address again: the pattern holds address 0 twice, one track is allocated in all, and the
  track in the first slot has lost its data line and had its step count go from 16 to 8.
\<close>

theorem reuse_overwrites_track:
  "map_sum id (map_prod id (\<lambda>s. (cursors s, data (heap s ! 0) CHR ''b'', steps (heap s ! 0))))
     (scan repo_env (start initial_globals) ['':basic'', '':'', ''b2'', ''steps 8''])
     = Inr (Continue, ([], [0], Some 0, 1), Some ''2'', 16)
   \<and> map_sum id (map_prod id (\<lambda>s. (cursors s, data (heap s ! 0) CHR ''b'', steps (heap s ! 0))))
     (scan repo_env (start initial_globals) ['':basic'', '':'', ''b2'', ''steps 8'', '':''])
     = Inr (Continue, ([], [0, 0], Some 0, 1), None, 8)"
  by code_simp

text \<open>
  C4 at a failing input. With a pattern open, an empty line changes nothing, where a line
  of one space closes the pattern; a line of two spaces is a data line with the code
  \<open>CHR '' ''\<close>. So two groups of directives with an empty line between them make one
  pattern.
\<close>

theorem empty_line_is_no_separator:
  "map_sum id (map_prod id cursors)
     (scan repo_env (start initial_globals) ['':basic'', '':basic'', ''''])
     = Inr (Continue, [], [0], Some 1, 2)
   \<and> map_sum id (map_prod id cursors)
     (scan repo_env (start initial_globals) ['':basic'', '':basic'', '' ''])
     = Inr (Continue, [[0]], [], None, 2)
   \<and> map_sum id (map_prod id (\<lambda>s. (cursors s, data (heap s ! 1) CHR '' '')))
     (scan repo_env (start initial_globals) ['':basic'', '':basic'', ''  ''])
     = Inr (Continue, ([], [0], Some 1, 2), Some '' '')
   \<and> map_sum id cursors
     (build repo_env initial_globals ['':basic'', '':basic'', '''', '':basic'', '':basic''])
     = Inr ([[0, 1, 2]], [], None, 4)"
  by code_simp

section \<open>The song builder\<close>

subsection \<open>Global settings and the snapshots of tracks\<close>





subsection \<open>Closing a pattern\<close>








text \<open>
  A separator that finds no pattern leaves the track cursor as it is, so a later
  directive appends the earlier track: with a second directive after the separator the
  song is not empty.
\<close>

lemma directive_after_separator:
  "map_sum id cursors (build repo_env initial_globals ['':basic'', '' '', '':basic'', '' ''])
     = Inr ([[0]], [], None, 2)"
  by code_simp

subsection \<open>The song reset\<close>

lemma shift_fields [simp]:
  "globals (shift_state h0 s) = globals s"
  "heap (shift_state h0 s) = h0 @ heap s"
  "song (shift_state h0 s) = map (map (\<lambda>a. length h0 + a)) (song s)"
  "pattern (shift_state h0 s) = map (\<lambda>a. length h0 + a) (pattern s)"
  "track (shift_state h0 s) = map_option (\<lambda>a. length h0 + a) (track s)"
  by (simp_all add: shift_state_def)

lemma shift_update:
  "(h0 @ h)[length h0 + a := x] = h0 @ h[a := x]"
  by (simp add: list_update_append)

lemma setProcessor_shift:
  "setProcessor env (shift_state h0 s) m = map_sum id (shift_state h0) (setProcessor env s m)"
  by (cases m)
     (auto simp: setProcessor_def shift_state_def Let_def shift_update
           split: option.splits sum.splits)

lemma setData_shift:
  "setData (shift_state h0 s) m = map_sum id (shift_state h0) (setData s m)"
  by (cases m) (auto simp: setData_def shift_state_def shift_update split: option.splits)

lemma processLine_shift:
  "processLine env (shift_state h0 s) line
     = map_sum id (map_prod id (shift_state h0)) (processLine env s line)"
  by (auto simp: processLine_def setProcessor_shift setData_shift
           split: option.splits sum.splits prod.splits)

lemma scan_shift:
  "scan env (shift_state h0 s) ls = map_sum id (map_prod id (shift_state h0)) (scan env s ls)"
proof (induction ls arbitrary: s)
  case Nil
  then show ?case by simp
next
  case (Cons l ls)
  then show ?case
    by (auto simp: processLine_shift split: sum.splits control.splits)
qed

lemma close_pattern_shift:
  "close_pattern (shift_state h0 s) = shift_state h0 (close_pattern s)"
  by (simp add: close_pattern_def shift_state_def)

lemma song_tracks_shift: "song_tracks (shift_state h0 s) = song_tracks s"
  by (simp add: song_tracks_def nth_append comp_def)

lemma render_tracks_shift:
  "render_tracks env sr (h0 @ h) (map (\<lambda>a. length h0 + a) p) acc = render_tracks env sr h p acc"
proof (induction p arbitrary: acc)
  case Nil
  then show ?case by simp
next
  case (Cons a p)
  obtain samples pf where "acc = (samples, pf)" by (cases acc)
  with Cons show ?case by (simp add: nth_append split: sum.splits)
qed

lemma render_song_shift:
  "render_song env sr (h0 @ h) (map (map (\<lambda>a. length h0 + a)) sg) acc = render_song env sr h sg acc"
proof (induction sg arbitrary: acc)
  case Nil
  then show ?case by simp
next
  case (Cons p sg)
  obtain ss wp where "acc = (ss, wp)" by (cases acc)
  with Cons show ?case by (simp add: render_tracks_shift split: sum.splits prod.splits)
qed

lemma scan_append:
  "scan env s (xs @ ys) = (case scan env s xs of
       Inl e \<Rightarrow> Inl e | Inr (Break, s1) \<Rightarrow> Inr (Break, s1) | Inr (Continue, s1) \<Rightarrow> scan env s1 ys)"
  by (induction xs arbitrary: s) (auto split: sum.splits control.splits)

lemma reset_is_shift:
  "s\<lparr>song := [], pattern := [], track := None\<rparr> = shift_state (heap s) (start (globals s))"
  by (simp add: shift_state_def start_def)

lemma processLine_reset:
  "processLine env s ''>>''
     = Inr (Continue, \<lparr>globals = globals s, heap = heap s, song = [], pattern = [], track = None\<rparr>)"
  by (simp add: processLine_def)

lemma scan_after_reset:
  assumes "scan env (start g) xs = Inr (Continue, s1)"
  shows "scan env (start g) (xs @ ''>>'' # ys)
     = map_sum id (map_prod id (shift_state (heap s1))) (scan env (start (globals s1)) ys)"
proof -
  have "scan env (start g) (xs @ ''>>'' # ys)
          = scan env (s1\<lparr>song := [], pattern := [], track := None\<rparr>) ys"
    using assms by (simp add: scan_append processLine_def)
  then show ?thesis by (simp add: reset_is_shift scan_shift)
qed

lemma build_after_reset:
  assumes "scan env (start g) xs = Inr (Continue, s1)"
  shows "build env g (xs @ ''>>'' # ys)
     = map_sum id (shift_state (heap s1)) (build env (globals s1) ys)"
  unfolding build_def scan_after_reset[OF assms]
  by (auto simp: close_pattern_shift split: sum.splits)

text \<open>
  C8. The line \<^verbatim>\<open>>>\<close> empties the song, the pattern and the track cursor and leaves
  the package-level variables and the allocated tracks as they are. So when the lines
  \<open>xs\<close> are read to their end without error, leaving the variables \<open>globals s1\<close>, the file
  \<open>xs\<close>, \<^verbatim>\<open>>>\<close>, \<open>ys\<close> builds the same song of tracks, and gives the same result, as
  the file \<open>ys\<close> read with those variables.
\<close>

theorem reset_discards:
  "processLine env s ''>>''
     = Inr (Continue, \<lparr>globals = globals s, heap = heap s, song = [], pattern = [], track = None\<rparr>)
   \<and> (scan env (start g) xs = Inr (Continue, s1) \<longrightarrow>
        map_sum id song_tracks (build env g (xs @ ''>>'' # ys))
          = map_sum id song_tracks (build env (globals s1) ys)
        \<and> processFile env g (xs @ ''>>'' # ys) = processFile env (globals s1) ys)"
proof -
  have "map_sum id song_tracks (build env g (xs @ ''>>'' # ys))
          = map_sum id song_tracks (build env (globals s1) ys)"
    if "scan env (start g) xs = Inr (Continue, s1)"
    using build_after_reset[OF that, of ys]
    by (cases "build env (globals s1) ys") (simp_all add: song_tracks_shift)
  moreover have "processFile env g (xs @ ''>>'' # ys) = processFile env (globals s1) ys"
    if "scan env (start g) xs = Inr (Continue, s1)"
    unfolding processFile_def build_after_reset[OF that]
    by (cases "build env (globals s1) ys")
       (simp_all add: render_song_shift split: sum.splits prod.splits)
  ultimately show ?thesis using processLine_reset by blast
qed

text \<open>
  A pattern read with 4 steps, the reset, and a pattern read with 6 steps: the song is the
  one track with 6 steps, as for the second part alone read with the step count 4 as the
  default.
\<close>

theorem reset_discards_witness:
  "(\<exists>s1. scan demo_env (start initial_globals) [''steps 4'', '':lead'', ''+bass'', '' '']
            = Inr (Continue, s1)
        \<and> globals s1 = initial_globals\<lparr>g_steps := 4\<rparr>)
   \<and> map_sum id (map (map steps) \<circ> song_tracks)
        (build demo_env initial_globals
           ([''steps 4'', '':lead'', ''+bass'', '' ''] @ ''>>'' # [''steps 6'', '':bass'', '':lead'', '' '']))
       = Inr [[6]]
   \<and> map_sum id song_tracks
        (build demo_env initial_globals
           ([''steps 4'', '':lead'', ''+bass'', '' ''] @ ''>>'' # [''steps 6'', '':bass'', '':lead'', '' '']))
       = map_sum id song_tracks
           (build demo_env (initial_globals\<lparr>g_steps := 4\<rparr>) [''steps 6'', '':bass'', '':lead'', '' ''])
   \<and> processFile demo_env initial_globals
           ([''steps 4'', '':lead'', ''+bass'', '' ''] @ ''>>'' # [''steps 6'', '':bass'', '':lead'', '' ''])
       = processFile demo_env (initial_globals\<lparr>g_steps := 4\<rparr>) [''steps 6'', '':bass'', '':lead'', '' '']"
proof -
  let ?xs = "[''steps 4'', '':lead'', ''+bass'', '' '']"
  let ?ys = "[''steps 6'', '':bass'', '':lead'', '' '']"
  have "map_sum id (map_prod id globals) (scan demo_env (start initial_globals) ?xs)
          = Inr (Continue, initial_globals\<lparr>g_steps := 4\<rparr>)"
    by code_simp
  then obtain s1 where s1: "scan demo_env (start initial_globals) ?xs = Inr (Continue, s1)"
    and g1: "globals s1 = initial_globals\<lparr>g_steps := 4\<rparr>"
    by (cases "scan demo_env (start initial_globals) ?xs") auto
  have e: "map_sum id (map (map steps) \<circ> song_tracks)
             (build demo_env initial_globals (?xs @ ''>>'' # ?ys)) = Inr [[6]]"
    by code_simp
  from reset_discards[of demo_env s1 initial_globals ?xs s1 ?ys] s1 g1 e
  show ?thesis by (simp del: append.simps)
qed

subsection \<open>The default step length\<close>













section \<open>The write offset\<close>





end
